theory Spec2Isabelle
  imports Complex_Main "HOL-Library.Char_ord" "HOL-Library.List_Lexorder"
    "HOL-Library.Product_Lexorder"
begin

section \<open>The finance dashboard: data model\<close>

text \<open>
  A shallow embedding of \<^verbatim>\<open>dash_finance_dashboard.py\<close>. The tidy table is a list of
  rows, one per dictionary appended to \<^verbatim>\<open>rows\<close>; a pandas DataFrame over it is the
  list of its rows in positional order (row labels are never read by the program).
  The numeric values are Python floats written as decimal literals; the program
  stores them, compares none of them, averages groups of them and formats them.
  They are modelled as the real numbers their literals denote.
\<close>

datatype py_error = KeyError | IndexError | ValueError

record row =
  Company :: string
  Metric :: string
  Value :: real
  YearLabel :: string
  Year :: int

type_synonym frame = "row list"

definition years :: "string list" where
  "years = [''Mar-21'', ''Mar-22'', ''Mar-23'', ''Mar-24'', ''Mar-25'']"

definition year_numbers :: "int list" where
  "year_numbers = [2021, 2022, 2023, 2024, 2025]"

text \<open>A dict literal keeps its insertion order: an association list.\<close>

definition dixon :: "(string \<times> real list) list" where
  "dixon =
    [(''Current Ratio'', [1.17, 1.15, 1.07, 1.48, 1.33]),
     (''Quick Ratio'', [1.12, 1.14, 1.27, 1.12, 1.01]),
     (''Gross Profit Margin'', [4.04, 3.04, 4.33, 3.91, 3.25]),
     (''Net Profit Margin'', [2.48, 1.78, 2.09, 2.08, 2.82]),
     (''Inventory Turnover'',
        [15.48176253, 10.41597944, 10.42333314, 12.16973252, 12.69463956]),
     (''Asset Turnover'', [2.27, 2.49, 2.60, 2.52, 2.30]),
     (''Trade Receivable Turnover'', [11.84, 8.73, 7.93, 8.73, 8.31])]"

definition honeywell :: "(string \<times> real list) list" where
  "honeywell =
    [(''Current Ratio'', [2.72, 3.26, 3.41, 3.66, 3.45]),
     (''Quick Ratio'', [2.61, 3.13, 3.22, 3.49, 3.24]),
     (''Gross Profit Margin'', [17.75, 12.91, 13.54, 13.20, 12.65]),
     (''Net Profit Margin'', [15.11, 11.50, 12.70, 12.35, 12.49]),
     (''Inventory Turnover'', [31.89, 29.90, 20.94, 25.51, 17.66]),
     (''Asset Turnover'', [1.28, 1.09, 1.14, 1.19, 1.10]),
     (''Trade Receivable Turnover'', [3.58, 3.62, 4.28, 4.35, 4.20])]"

subsection \<open>Building the tidy table\<close>

text \<open>Python's \<^verbatim>\<open>xs[i]\<close> for \<open>i \<ge> 0\<close>: IndexError out of range.\<close>

definition getitem :: "'a list \<Rightarrow> nat \<Rightarrow> py_error + 'a" where
  "getitem xs i = (if i < length xs then Inr (xs ! i) else Inl IndexError)"

text \<open>
  One inner loop \<^verbatim>\<open>for k, v in d.items(): rows.append({...})\<close>, for the company
  named \<open>c\<close>, at position \<open>i\<close> of the outer loop with year label \<open>y\<close>. The rows
  appended so far are passed in and returned extended; an IndexError of \<^verbatim>\<open>v[i]\<close> or
  \<^verbatim>\<open>year_numbers[i]\<close> ends the loop.
\<close>

fun append_company ::
  "string \<Rightarrow> nat \<Rightarrow> string \<Rightarrow> (string \<times> real list) list \<Rightarrow> frame \<Rightarrow> py_error + frame" where
  "append_company c i y [] rows = Inr rows"
| "append_company c i y ((k, v) # kvs) rows =
     (case getitem v i of
        Inl e \<Rightarrow> Inl e
      | Inr x \<Rightarrow>
         (case getitem year_numbers i of
            Inl e \<Rightarrow> Inl e
          | Inr n \<Rightarrow>
             append_company c i y kvs
               (rows @ [\<lparr>Company = c, Metric = k, Value = x, YearLabel = y, Year = n\<rparr>])))"

text \<open>The outer loop \<^verbatim>\<open>for i, y in enumerate(years)\<close>, over the pairs \<open>(i, y)\<close>.\<close>

fun append_years :: "(nat \<times> string) list \<Rightarrow> frame \<Rightarrow> py_error + frame" where
  "append_years [] rows = Inr rows"
| "append_years ((i, y) # iys) rows =
     (case append_company ''Dixon'' i y dixon rows of
        Inl e \<Rightarrow> Inl e
      | Inr rows1 \<Rightarrow>
         (case append_company ''Honeywell'' i y honeywell rows1 of
            Inl e \<Rightarrow> Inl e
          | Inr rows2 \<Rightarrow> append_years iys rows2))"

definition build_rows :: "py_error + frame" where
  "build_rows = append_years (enumerate 0 years) []"

text \<open>
  \<^verbatim>\<open>df = pd.DataFrame(rows)\<close>. Were the build to raise, the module would not load
  and no callback would ever run; \<open>build_rows_ok\<close> below shows that it does not.
\<close>

definition df :: frame where
  "df = (case build_rows of Inr rows \<Rightarrow> rows | Inl e \<Rightarrow> [])"

text \<open>
  \<^verbatim>\<open>metric_groups\<close>, a dict: looked up by \<^verbatim>\<open>metric_groups[group]\<close>, which raises
  KeyError for a key it does not hold.
\<close>

definition metric_groups :: "(string \<times> string list) list" where
  "metric_groups =
    [(''liquidity'', [''Current Ratio'', ''Quick Ratio'']),
     (''profitability'', [''Gross Profit Margin'', ''Net Profit Margin'']),
     (''turnover'', [''Inventory Turnover'', ''Asset Turnover'', ''Trade Receivable Turnover''])]"

section \<open>The pandas operations the program uses\<close>

text \<open>
  A column \<^verbatim>\<open>d['X']\<close> is the list of the field over the rows. A comparison of a
  column with a scalar, and \<^verbatim>\<open>isin\<close>, give a boolean column; \<^verbatim>\<open>&\<close> combines two of
  them position by position; \<^verbatim>\<open>d[mask]\<close> keeps the rows whose mask entry is true. All
  masks of the program are computed from the frame they select from, so positions
  and row labels agree.
\<close>

definition col :: "('r \<Rightarrow> 'a) \<Rightarrow> 'r list \<Rightarrow> 'a list" where
  "col f d = map f d"

definition eq_mask :: "'a list \<Rightarrow> 'a \<Rightarrow> bool list" where
  "eq_mask xs v = map (\<lambda>x. x = v) xs"

definition isin :: "'a list \<Rightarrow> 'a list \<Rightarrow> bool list" where
  "isin xs vs = map (\<lambda>x. x \<in> set vs) xs"

definition ge_mask :: "int list \<Rightarrow> int \<Rightarrow> bool list" where
  "ge_mask xs v = map (\<lambda>x. x \<ge> v) xs"

definition le_mask :: "int list \<Rightarrow> int \<Rightarrow> bool list" where
  "le_mask xs v = map (\<lambda>x. x \<le> v) xs"

definition and_mask :: "bool list \<Rightarrow> bool list \<Rightarrow> bool list" where
  "and_mask a b = map2 (\<and>) a b"

definition select_rows :: "'r list \<Rightarrow> bool list \<Rightarrow> 'r list" where
  "select_rows d m = map fst (filter snd (zip d m))"

text \<open>
  \<^verbatim>\<open>d.sort_values('Year')\<close>: ascending by year. The model is the stable insertion
  sort of the library; pandas' default sort is not stable for long columns, but
  every frame the program sorts holds one company and one metric of \<open>df\<close>, where
  the years are distinct (\<open>series_years_distinct\<close> below), so the order is determined.
\<close>

definition sort_values_Year :: "frame \<Rightarrow> frame" where
  "sort_values_Year d = sort_key Year d"

subsection \<open>The helper \<^verbatim>\<open>kpi_latest\<close>\<close>

text \<open>
  \<^verbatim>\<open>.iloc[-1]\<close> is the last entry; it is reached only when \<open>sub\<close>, and so the sorted
  column, is not empty.
\<close>

definition kpi_latest :: "frame \<Rightarrow> string \<Rightarrow> string \<Rightarrow> real option" where
  "kpi_latest df_local company metric =
     (let sub = select_rows df_local
                  (and_mask (eq_mask (col Company df_local) company)
                            (eq_mask (col Metric df_local) metric))
      in if sub = [] then None
         else Some (last (col Value (sort_values_Year sub))))"

section \<open>Formatting numbers\<close>

text \<open>
  Python's \<^verbatim>\<open>f"{v:.2f}"\<close> rounds the value to the nearest multiple of 1/100, a tie to
  the even one, and prints sign, integer digits, a point and two digits. On a float
  the rounding is that of the binary value; it is the rounding of the literal
  unless the literal lies exactly halfway, which no value of the dataset does.
\<close>

definition round_half_even :: "real \<Rightarrow> int" where
  "round_half_even x =
     (let f = \<lfloor>x\<rfloor>; d = x - of_int f
      in if d < 1 / 2 then f
         else if d > 1 / 2 then f + 1
         else if even f then f else f + 1)"

definition digit_char :: "nat \<Rightarrow> char" where
  "digit_char n = ''0123456789'' ! (n mod 10)"

fun str_nat :: "nat \<Rightarrow> string" where
  "str_nat n =
     (if n < 10 then [digit_char n] else str_nat (n div 10) @ [digit_char (n mod 10)])"

declare str_nat.simps [simp del]

definition format_2f :: "real \<Rightarrow> string" where
  "format_2f v =
     (let n = nat (round_half_even (\<bar>v\<bar> * 100))
      in (if v < 0 then ''-'' else []) @ str_nat (n div 100) @ ''.''
           @ [digit_char (n div 10 mod 10), digit_char (n mod 10)])"

text \<open>The em dash U+2014 of the source, as its three UTF-8 bytes.\<close>

definition em_dash :: string where
  "em_dash = [CHR 0xE2, CHR 0x80, CHR 0x94]"

text \<open>
  \<^verbatim>\<open>str.title()\<close> on ASCII text: a cased character is written in upper case when the
  character before it is not cased, in lower case otherwise. The program calls it
  on the group key only, after the key has been found in \<open>metric_groups\<close>.
\<close>

definition ascii_lower :: string where
  "ascii_lower = ''abcdefghijklmnopqrstuvwxyz''"

definition ascii_upper :: string where
  "ascii_upper = ''ABCDEFGHIJKLMNOPQRSTUVWXYZ''"

definition is_cased :: "char \<Rightarrow> bool" where
  "is_cased c = (c \<in> set ascii_lower \<or> c \<in> set ascii_upper)"

definition to_upper :: "char \<Rightarrow> char" where
  "to_upper c = (case map_of (zip ascii_lower ascii_upper) c of Some u \<Rightarrow> u | None \<Rightarrow> c)"

definition to_lower :: "char \<Rightarrow> char" where
  "to_lower c = (case map_of (zip ascii_upper ascii_lower) c of Some l \<Rightarrow> l | None \<Rightarrow> c)"

fun title_from :: "bool \<Rightarrow> string \<Rightarrow> string" where
  "title_from prev [] = []"
| "title_from prev (c # cs) =
     (if is_cased c then (if prev then to_lower c else to_upper c) # title_from True cs
      else c # title_from False cs)"

definition str_title :: "string \<Rightarrow> string" where
  "str_title s = title_from False s"

section \<open>The KPI cards (\<^verbatim>\<open>update_kpis\<close>)\<close>

text \<open>
  A Dash component tree: a text child, or a \<^verbatim>\<open>html.Div\<close> with its children and its
  style dictionary. A single child is the one-element list; no style is the empty
  one.
\<close>

type_synonym style = "(string \<times> string) list"

datatype html = Str string | Div "html list" style

definition kpis :: "string list" where
  "kpis = [''Current Ratio'', ''Quick Ratio'', ''Gross Profit Margin'', ''Net Profit Margin'',
           ''Inventory Turnover'', ''Asset Turnover'']"

text \<open>\<^verbatim>\<open>f"{val:.2f}" if val is not None else "\<close>em dash\<^verbatim>\<open>"\<close>\<close>

definition kpi_text :: "real option \<Rightarrow> string" where
  "kpi_text val = (case val of Some v \<Rightarrow> format_2f v | None \<Rightarrow> em_dash)"

text \<open>The body of the loop over \<open>kpis\<close>: the card of one metric.\<close>

definition kpi_card :: "string \<Rightarrow> string \<Rightarrow> html" where
  "kpi_card company metric =
     (let body =
        (if company = ''Both'' then
           (let d_val = kpi_latest df ''Dixon'' metric;
                h_val = kpi_latest df ''Honeywell'' metric
            in Div
                 [Div [Str metric] [(''font-size'', ''12px''), (''color'', ''#333'')],
                  Div
                    [Div [Div [Str ''Dixon''] [(''font-size'', ''11px''), (''color'', ''#666'')],
                          Div [Str (kpi_text d_val)] [(''font-weight'', ''700'')]] [],
                     Div [Div [Str ''Honeywell''] [(''font-size'', ''11px''), (''color'', ''#666'')],
                          Div [Str (kpi_text h_val)] [(''font-weight'', ''700'')]] []]
                    [(''display'', ''flex''), (''gap'', ''10px''), (''margin-top'', ''6px'')]]
                 [(''padding'', ''8px'')])
         else
           (let val = kpi_latest df company metric
            in Div
                 [Div [Str metric] [(''font-size'', ''12px''), (''color'', ''#333'')],
                  Div [Str (kpi_text val)]
                    [(''font-size'', ''18px''), (''font-weight'', ''700''), (''margin-top'', ''6px'')]]
                 [(''padding'', ''8px'')]))
      in Div [body]
           [(''border'', ''1px solid #e6e6e6''), (''border-radius'', ''8px''),
            (''min-width'', ''170px''), (''background'', ''#fff''),
            (''box-shadow'', ''0 1px 3px rgba(0,0,0,0.04)'')])"

text \<open>The loop appends one card per metric of \<open>kpis\<close>, in order.\<close>

definition update_kpis :: "string \<Rightarrow> html list" where
  "update_kpis company = map (kpi_card company) kpis"

text \<open>The texts of a component tree, left to right.\<close>

fun texts :: "html \<Rightarrow> string list" where
  "texts (Str s) = [s]"
| "texts (Div cs st) = concat (map texts cs)"

section \<open>The charts and the table (\<^verbatim>\<open>update_charts\<close>)\<close>

text \<open>
  A plotly figure: the traces added to it, in order, and the keyword arguments of
  the one \<^verbatim>\<open>update_layout\<close> call made on it.
\<close>

datatype trace =
    Bar (tx: "string list") (ty: "real list") (tname: string)
        (ttext: "string list") (textposition: string)
  | Scatter (tx: "string list") (ty: "real list") (tmode: string) (tname: string)

datatype layout_value = LStr string | LInt int | LDict "(string \<times> int) list"

record figure =
  traces :: "trace list"
  layout :: "(string \<times> layout_value) list"

text \<open>
  The filtered frame
  \<^verbatim>\<open>df[(df['Metric'].isin(metrics)) & (df['Year'] >= yr_min) & (df['Year'] <= yr_max)]\<close>.
\<close>

definition filter_dff :: "string list \<Rightarrow> int \<Rightarrow> int \<Rightarrow> frame" where
  "filter_dff metrics yr_min yr_max =
     select_rows df
       (and_mask (and_mask (isin (col Metric df) metrics) (ge_mask (col Year df) yr_min))
                 (le_mask (col Year df) yr_max))"

text \<open>
  The two selections of one series, as the source writes them: metric first in the
  branch for both companies and in the sparkline, company first in the main chart
  of a single company.
\<close>

definition series_mc :: "frame \<Rightarrow> string \<Rightarrow> string \<Rightarrow> frame" where
  "series_mc dff metric company =
     sort_values_Year
       (select_rows dff (and_mask (eq_mask (col Metric dff) metric) (eq_mask (col Company dff) company)))"

definition series_cm :: "frame \<Rightarrow> string \<Rightarrow> string \<Rightarrow> frame" where
  "series_cm dff company metric =
     sort_values_Year
       (select_rows dff
          (and_mask (eq_mask (col Company dff) company) (eq_mask (col Metric dff) metric)))"

definition bar_trace :: "frame \<Rightarrow> string \<Rightarrow> trace" where
  "bar_trace s name =
     Bar (col YearLabel s) (col Value s) name (map format_2f (col Value s)) ''auto''"

text \<open>
  The main chart. The nested loops over the metrics and the two companies add one
  bar trace per pair, metric by metric.
\<close>

definition build_fig :: "frame \<Rightarrow> string \<Rightarrow> string \<Rightarrow> string list \<Rightarrow> figure" where
  "build_fig dff company group_key metrics =
     (if company = ''Both'' then
        \<lparr>traces =
           concat (map (\<lambda>metric.
             map (\<lambda>c. bar_trace (series_mc dff metric c)
                            (c @ '' '' @ em_dash @ '' '' @ metric))
               [''Dixon'', ''Honeywell'']) metrics),
         layout =
           [(''barmode'', LStr ''group''),
            (''title'', LStr (''Comparison '' @ em_dash @ '' grouped by metric & company'')),
            (''xaxis_title'', LStr ''Year''), (''yaxis_title'', LStr ''Value'')]\<rparr>
      else
        \<lparr>traces = map (\<lambda>metric. bar_trace (series_cm dff company metric) metric) metrics,
         layout =
           [(''barmode'', LStr ''group''),
            (''title'', LStr (company @ '' '' @ em_dash @ '' '' @ str_title group_key)),
            (''xaxis_title'', LStr ''Year''), (''yaxis_title'', LStr ''Value'')]\<rparr>)"

definition scatter_trace :: "frame \<Rightarrow> string \<Rightarrow> trace" where
  "scatter_trace s name = Scatter (col YearLabel s) (col Value s) ''lines+markers'' name"

text \<open>The sparkline of the metric \<open>primary\<close>.\<close>

definition build_spark :: "frame \<Rightarrow> string \<Rightarrow> string \<Rightarrow> figure" where
  "build_spark dff company primary =
     \<lparr>traces =
        (if company = ''Both'' then
           map (\<lambda>c. scatter_trace (series_mc dff primary c) c) [''Dixon'', ''Honeywell'']
         else [scatter_trace (series_mc dff primary company) company]),
      layout =
        [(''title'', LStr (''Trend '' @ em_dash @ '' '' @ primary)),
         (''margin'', LDict [(''t'', 30), (''b'', 10), (''l'', 30), (''r'', 10)]),
         (''height'', LInt 240)]\<rparr>"

subsection \<open>The pivoted table\<close>

text \<open>
  A wide table: the row labels, the column labels (pairs of company and metric) and
  the cells row by row, \<open>None\<close> for a cell without a value (pandas' NaN).

  \<^verbatim>\<open>d.pivot_table(index='YearLabel', columns=['Company', 'Metric'], values='Value')\<close>
  groups the rows by the three keys and takes the mean of each group's values (the
  default \<^verbatim>\<open>aggfunc\<close>), then spreads the groups: one row per year label and one
  column per pair of company and metric that occur, both in ascending order, and a
  cell without a group is left NaN (no \<^verbatim>\<open>fill_value\<close>). On a frame without rows
  the result has no rows and no columns.
\<close>

record pivot =
  pindex :: "string list"
  pcolumns :: "(string \<times> string) list"
  pvalues :: "real option list list"

definition mean :: "real list \<Rightarrow> real" where
  "mean vs = sum_list vs / real (length vs)"

definition group_values :: "frame \<Rightarrow> string \<Rightarrow> string \<times> string \<Rightarrow> real list" where
  "group_values d yl cm =
     map Value (filter (\<lambda>r. YearLabel r = yl \<and> (Company r, Metric r) = cm) d)"

definition agg_mean :: "frame \<Rightarrow> string \<Rightarrow> string \<times> string \<Rightarrow> real option" where
  "agg_mean d yl cm = (case group_values d yl cm of [] \<Rightarrow> None | v # vs \<Rightarrow> Some (mean (v # vs)))"

definition pivot_table :: "frame \<Rightarrow> pivot" where
  "pivot_table d =
     (let idx = sort (remdups (map YearLabel d));
          cols = sort (remdups (map (\<lambda>r. (Company r, Metric r)) d))
      in \<lparr>pindex = idx, pcolumns = cols,
          pvalues = map (\<lambda>yl. map (\<lambda>cm. agg_mean d yl cm) cols) idx\<rparr>)"

text \<open>\<^verbatim>\<open>table_df.round(3)\<close>: every value to the nearest multiple of 1/1000, ties to even.\<close>

definition round_3 :: "real \<Rightarrow> real" where
  "round_3 v = of_int (round_half_even (v * 1000)) / 1000"

definition round_table :: "pivot \<Rightarrow> pivot" where
  "round_table t = t\<lparr>pvalues := map (map (map_option round_3)) (pvalues t)\<rparr>"

text \<open>
  Reading a table: the position of a label, and the cell at a row label and a
  column label. \<open>None\<close> is a cell without a value, or a label the table does not
  have.
\<close>

fun position :: "'a list \<Rightarrow> 'a \<Rightarrow> nat option" where
  "position [] a = None"
| "position (x # xs) a = (if x = a then Some 0 else map_option Suc (position xs a))"

definition cell :: "pivot \<Rightarrow> string \<Rightarrow> string \<times> string \<Rightarrow> real option" where
  "cell t yl cm =
     (case position (pindex t) yl of
        None \<Rightarrow> None
      | Some i \<Rightarrow>
         (case position (pcolumns t) cm of
            None \<Rightarrow> None
          | Some j \<Rightarrow> pvalues t ! i ! j))"

subsection \<open>The callback\<close>

text \<open>
  The three outputs. The third is \<^verbatim>\<open>html.Pre(table_df.round(3).to_csv())\<close>; it is
  kept as the rounded table that pandas serialises, the CSV text itself being the
  library's.
\<close>

record charts =
  main_chart :: figure
  spark_chart :: figure
  data_table :: pivot

text \<open>
  \<^verbatim>\<open>yr_min, yr_max = year_range\<close> raises ValueError unless the range has exactly two
  entries; \<^verbatim>\<open>metric_groups[group]\<close> raises KeyError for an unknown key;
  \<^verbatim>\<open>metrics[0]\<close> raises IndexError on an empty list.
\<close>

definition update_charts :: "string \<Rightarrow> string \<Rightarrow> int list \<Rightarrow> py_error + charts" where
  "update_charts company group_key year_range =
     (case year_range of
        [yr_min, yr_max] \<Rightarrow>
          (case map_of metric_groups group_key of
             None \<Rightarrow> Inl KeyError
           | Some metrics \<Rightarrow>
              (let dff = filter_dff metrics yr_min yr_max;
                   fig = build_fig dff company group_key metrics
               in case getitem metrics 0 of
                    Inl e \<Rightarrow> Inl e
                  | Inr primary \<Rightarrow>
                     (let spark = build_spark dff company primary;
                          table_df = pivot_table dff
                      in Inr \<lparr>main_chart = fig, spark_chart = spark,
                              data_table = round_table table_df\<rparr>)))
      | _ \<Rightarrow> Inl ValueError)"

subsection \<open>The callback wiring\<close>

text \<open>
  The three controls of the layout, and the two \<^verbatim>\<open>@app.callback\<close> declarations:
  \<^verbatim>\<open>kpi-cards\<close> is recomputed from \<^verbatim>\<open>company-select\<close> alone, the charts and the table
  from all three controls.
\<close>

text \<open>
  The options of the dropdown \<^verbatim>\<open>metric-group\<close>, each a label and the value it
  selects.
\<close>

definition metric_group_options :: "(string \<times> string) list" where
  "metric_group_options =
    [(''Liquidity Ratios'', ''liquidity''),
     (''Profitability Ratios'', ''profitability''),
     (''Turnover Ratios'', ''turnover'')]"

record controls =
  company_select :: string
  metric_group :: string
  year_range_value :: "int list"

definition kpi_cards_output :: "controls \<Rightarrow> html list" where
  "kpi_cards_output st = update_kpis (company_select st)"

definition charts_output :: "controls \<Rightarrow> py_error + charts" where
  "charts_output st = update_charts (company_select st) (metric_group st) (year_range_value st)"

section \<open>Predicates and reference definitions for the properties\<close>

text \<open>
  A text with exactly two decimal places: a point, two digits after it and at
  least one character, none of them a point, before it.
\<close>

definition is_digit :: "char \<Rightarrow> bool" where
  "is_digit c = (c \<in> set ''0123456789'')"

definition two_decimals :: "string \<Rightarrow> bool" where
  "two_decimals s =
     (case rev s of
        d2 # d1 # p # ip \<Rightarrow>
          is_digit d2 \<and> is_digit d1 \<and> p = CHR ''.'' \<and> ip \<noteq> [] \<and> CHR ''.'' \<notin> set ip
      | _ \<Rightarrow> False)"

text \<open>
  The pivot without aggregation, as the property of the table states it: the same
  labels as \<open>pivot_table\<close>, and in each cell the value of the first row with the
  cell's year label, company and metric, if there is one.
\<close>

definition pivot_lookup :: "frame \<Rightarrow> pivot" where
  "pivot_lookup d =
     (let idx = sort (remdups (map YearLabel d));
          cols = sort (remdups (map (\<lambda>r. (Company r, Metric r)) d))
      in \<lparr>pindex = idx, pcolumns = cols,
          pvalues =
            map (\<lambda>yl. map (\<lambda>cm.
              map_option Value
                (find (\<lambda>r. YearLabel r = yl \<and> (Company r, Metric r) = cm) d)) cols) idx\<rparr>)"

section \<open>Masks are filters\<close>

lemma select_rows_map: "select_rows d (map P d) = filter P d"
  by (induction d) (simp_all add: select_rows_def)

lemma and_mask_map: "and_mask (map P d) (map Q d) = map (\<lambda>r. P r \<and> Q r) d"
  by (induction d) (simp_all add: and_mask_def)

lemma eq_mask_col: "eq_mask (col f d) a = map (\<lambda>r. f r = a) d"
  by (simp add: eq_mask_def col_def)

lemma isin_col: "isin (col f d) vs = map (\<lambda>r. f r \<in> set vs) d"
  by (simp add: isin_def col_def)

lemma ge_mask_col: "ge_mask (col f d) v = map (\<lambda>r. v \<le> f r) d"
  by (simp add: ge_mask_def col_def)

lemma le_mask_col: "le_mask (col f d) v = map (\<lambda>r. f r \<le> v) d"
  by (simp add: le_mask_def col_def)

lemmas mask_simps =
  eq_mask_col isin_col ge_mask_col le_mask_col and_mask_map select_rows_map

lemma filter_dff_filter:
  "filter_dff metrics lo hi =
     filter (\<lambda>r. Metric r \<in> set metrics \<and> lo \<le> Year r \<and> Year r \<le> hi) df"
  by (simp add: filter_dff_def mask_simps conj_assoc)

lemma series_mc_filter:
  "series_mc d m c = sort_key Year (filter (\<lambda>r. Metric r = m \<and> Company r = c) d)"
  by (simp add: series_mc_def mask_simps sort_values_Year_def)

lemma series_cm_filter:
  "series_cm d c m = sort_key Year (filter (\<lambda>r. Company r = c \<and> Metric r = m) d)"
  by (simp add: series_cm_def mask_simps sort_values_Year_def)

lemma kpi_latest_filter:
  "kpi_latest d c m =
     (if filter (\<lambda>r. Company r = c \<and> Metric r = m) d = [] then None
      else Some (last (map Value
                   (sort_key Year (filter (\<lambda>r. Company r = c \<and> Metric r = m) d)))))"
  unfolding kpi_latest_def mask_simps by (simp add: col_def sort_values_Year_def)

section \<open>The dataset\<close>

lemma build_rows_ok: "build_rows = Inr df"
  by code_simp

lemma df_length: "length df = 70"
  by code_simp

lemma df_order:
  "df = concat (map (\<lambda>i.
      map (\<lambda>(k, v). \<lparr>Company = ''Dixon'', Metric = k, Value = v ! i,
                       YearLabel = years ! i, Year = year_numbers ! i\<rparr>) dixon
    @ map (\<lambda>(k, v). \<lparr>Company = ''Honeywell'', Metric = k, Value = v ! i,
                       YearLabel = years ! i, Year = year_numbers ! i\<rparr>) honeywell)
     [0..<5])"
  by code_simp

lemma df_triples_distinct: "distinct (map (\<lambda>r. (Company r, Metric r, Year r)) df)"
  by code_simp

lemma df_pairs_2025:
  "set (map (\<lambda>r. (Company r, Metric r)) df)
     \<subseteq> set (map (\<lambda>r. (Company r, Metric r)) (filter (\<lambda>r. Year r = 2025) df))"
  by code_simp

lemma df_years: "\<forall>r\<in>set df. Year r \<le> 2025"
  by code_simp

lemma metric_groups_cases:
  "map_of metric_groups g = Some ms \<Longrightarrow>
     (g = ''liquidity'' \<and> ms = [''Current Ratio'', ''Quick Ratio'']) \<or>
     (g = ''profitability'' \<and> ms = [''Gross Profit Margin'', ''Net Profit Margin'']) \<or>
     (g = ''turnover'' \<and>
        ms = [''Inventory Turnover'', ''Asset Turnover'', ''Trade Receivable Turnover''])"
  by (simp add: metric_groups_def split: if_splits)

text \<open>
  C9. The build does not raise and gives 70 rows, in the order of the loops: year
  by year (positions 0 to 4 of \<open>years\<close>), within a year Dixon's metrics in the
  order of its dictionary, then Honeywell's; and no two rows have the same company,
  metric and year.
\<close>

theorem dataset_build:
  "build_rows = Inr df \<and> length df = 70 \<and>
   df = concat (map (\<lambda>i.
      map (\<lambda>(k, v). \<lparr>Company = ''Dixon'', Metric = k, Value = v ! i,
                       YearLabel = years ! i, Year = year_numbers ! i\<rparr>) dixon
    @ map (\<lambda>(k, v). \<lparr>Company = ''Honeywell'', Metric = k, Value = v ! i,
                       YearLabel = years ! i, Year = year_numbers ! i\<rparr>) honeywell)
     [0..<5]) \<and>
   distinct (map (\<lambda>r. (Company r, Metric r, Year r)) df)"
  using build_rows_ok df_length df_order df_triples_distinct by blast

section \<open>The latest value\<close>

lemma sorted_last_max: "sorted (map f xs) \<Longrightarrow> x \<in> set xs \<Longrightarrow> f x \<le> f (last xs)"
proof (induction xs)
  case Nil then show ?case by simp
next
  case (Cons a xs) then show ?case by (cases "xs = []") auto
qed

lemma kpi_latest_None:
  "kpi_latest d c m = None \<longleftrightarrow> \<not> (\<exists>r\<in>set d. Company r = c \<and> Metric r = m)"
  by (auto simp add: kpi_latest_filter filter_empty_conv)

lemma kpi_latest_Some:
  assumes "kpi_latest d c m = Some v"
  shows "\<exists>r\<in>set d. Company r = c \<and> Metric r = m \<and> Value r = v \<and>
           (\<forall>r'\<in>set d. Company r' = c \<and> Metric r' = m \<longrightarrow> Year r' \<le> Year r)"
proof -
  let ?sub = "filter (\<lambda>r. Company r = c \<and> Metric r = m) d"
  let ?s = "sort_key Year ?sub"
  from assms have ne: "?sub \<noteq> []" and v: "v = last (map Value ?s)"
    by (auto simp add: kpi_latest_filter split: if_splits)
  from ne have sne: "?s \<noteq> []" by (simp flip: length_greater_0_conv)
  then have "last ?s \<in> set ?s" by (rule last_in_set)
  then have mem: "last ?s \<in> set ?sub" by simp
  have mx: "Year r' \<le> Year (last ?s)" if "r' \<in> set ?sub" for r'
    using sorted_last_max [of Year ?s r'] that by simp
  from v sne have "v = Value (last ?s)" by (simp add: last_map)
  with mem mx show ?thesis by (intro bexI [of _ "last ?s"]) auto
qed

lemma kpi_latest_df_2025:
  assumes "r0 \<in> set df" "Company r0 = c" "Metric r0 = m"
  shows "\<exists>r\<in>set df. Company r = c \<and> Metric r = m \<and> Year r = 2025 \<and>
           kpi_latest df c m = Some (Value r) \<and>
           (\<forall>r'\<in>set df. Company r' = c \<and> Metric r' = m \<longrightarrow> Year r' \<le> Year r)"
proof -
  from assms have "kpi_latest df c m \<noteq> None" by (auto simp add: kpi_latest_None)
  then obtain v where v: "kpi_latest df c m = Some v" by auto
  from kpi_latest_Some [OF v] obtain r where r: "r \<in> set df" "Company r = c" "Metric r = m"
    "Value r = v" and mx: "\<forall>r'\<in>set df. Company r' = c \<and> Metric r' = m \<longrightarrow> Year r' \<le> Year r"
    by blast
  from assms have "(c, m) \<in> set (map (\<lambda>r. (Company r, Metric r)) df)" by force
  with df_pairs_2025 have "(c, m) \<in> set (map (\<lambda>r. (Company r, Metric r)) (filter (\<lambda>r. Year r = 2025) df))"
    by blast
  then obtain r1 where "r1 \<in> set df" "Year r1 = 2025" "Company r1 = c" "Metric r1 = m" by auto
  with mx have "2025 \<le> Year r" by force
  moreover from df_years r(1) have "Year r \<le> 2025" by blast
  ultimately have "Year r = 2025" by simp
  with r mx v show ?thesis by blast
qed

lemma kpi_dixon_current: "kpi_latest df ''Dixon'' ''Current Ratio'' = Some 1.33" by code_simp
lemma kpi_honeywell_npm: "kpi_latest df ''Honeywell'' ''Net Profit Margin'' = Some 12.49" by code_simp

text \<open>
  C2. For every company and metric with a row in \<open>df\<close>, \<open>kpi_latest\<close> returns the
  value of a row of that company and metric whose year is the greatest among them,
  and that year is 2025; for Dixon's Current Ratio it is 1.33, for Honeywell's Net
  Profit Margin 12.49. On any frame, a company and metric without a row give
  \<open>None\<close>, and a returned value is that of a row of greatest year.
\<close>

theorem kpi_latest_spec:
  "(\<forall>c m. (\<exists>r\<in>set df. Company r = c \<and> Metric r = m) \<longrightarrow>
      (\<exists>r\<in>set df. Company r = c \<and> Metric r = m \<and> Year r = 2025 \<and>
          kpi_latest df c m = Some (Value r) \<and>
          (\<forall>r'\<in>set df. Company r' = c \<and> Metric r' = m \<longrightarrow> Year r' \<le> Year r))) \<and>
   kpi_latest df ''Dixon'' ''Current Ratio'' = Some 1.33 \<and>
   kpi_latest df ''Honeywell'' ''Net Profit Margin'' = Some 12.49 \<and>
   (\<forall>d c m. \<not> (\<exists>r\<in>set d. Company r = c \<and> Metric r = m) \<longrightarrow> kpi_latest d c m = None) \<and>
   (\<forall>d c m v. kpi_latest d c m = Some v \<longrightarrow>
      (\<exists>r\<in>set d. Company r = c \<and> Metric r = m \<and> Value r = v \<and>
         (\<forall>r'\<in>set d. Company r' = c \<and> Metric r' = m \<longrightarrow> Year r' \<le> Year r)))"
proof (intro conjI allI impI)
  fix c m assume "\<exists>r\<in>set df. Company r = c \<and> Metric r = m"
  then show "\<exists>r\<in>set df. Company r = c \<and> Metric r = m \<and> Year r = 2025 \<and>
          kpi_latest df c m = Some (Value r) \<and>
          (\<forall>r'\<in>set df. Company r' = c \<and> Metric r' = m \<longrightarrow> Year r' \<le> Year r)"
    using kpi_latest_df_2025 by blast
next
  show "kpi_latest df ''Dixon'' ''Current Ratio'' = Some 1.33" by (rule kpi_dixon_current)
  show "kpi_latest df ''Honeywell'' ''Net Profit Margin'' = Some 12.49" by (rule kpi_honeywell_npm)
next
  fix d :: frame and c m assume "\<not> (\<exists>r\<in>set d. Company r = c \<and> Metric r = m)"
  then show "kpi_latest d c m = None" by (simp add: kpi_latest_None)
next
  fix d :: frame and c m v assume "kpi_latest d c m = Some v"
  then show "\<exists>r\<in>set d. Company r = c \<and> Metric r = m \<and> Value r = v \<and>
         (\<forall>r'\<in>set d. Company r' = c \<and> Metric r' = m \<longrightarrow> Year r' \<le> Year r)"
    by (rule kpi_latest_Some)
qed

lemma dixon_quick_present: "\<exists>r\<in>set df. Company r = ''Dixon'' \<and> Metric r = ''Quick Ratio''"
  by code_simp

lemma acme_absent: "\<not> (\<exists>r\<in>set df. Company r = ''Acme'' \<and> Metric r = ''Current Ratio'')"
  by code_simp

theorem kpi_latest_spec_witness:
  "(\<exists>r\<in>set df. Company r = ''Dixon'' \<and> Metric r = ''Quick Ratio'') \<and>
   (\<exists>r\<in>set df. Company r = ''Dixon'' \<and> Metric r = ''Quick Ratio'' \<and> Year r = 2025 \<and>
       kpi_latest df ''Dixon'' ''Quick Ratio'' = Some (Value r)) \<and>
   \<not> (\<exists>r\<in>set df. Company r = ''Acme'' \<and> Metric r = ''Current Ratio'') \<and>
   kpi_latest df ''Acme'' ''Current Ratio'' = None"
proof -
  note t = kpi_latest_spec
  from t dixon_quick_present
  have "\<exists>r\<in>set df. Company r = ''Dixon'' \<and> Metric r = ''Quick Ratio'' \<and> Year r = 2025 \<and>
       kpi_latest df ''Dixon'' ''Quick Ratio'' = Some (Value r)" by blast
  moreover from t acme_absent have "kpi_latest df ''Acme'' ''Current Ratio'' = None" by blast
  ultimately show ?thesis using dixon_quick_present acme_absent by blast
qed

section \<open>The filtered frame\<close>

lemma len_liquidity_full: "length (filter_dff [''Current Ratio'', ''Quick Ratio''] 2021 2025) = 20"
  by code_simp
lemma len_liquidity_narrow: "length (filter_dff [''Current Ratio'', ''Quick Ratio''] 2023 2024) = 8"
  by code_simp
lemma len_profitability_narrow:
  "length (filter_dff [''Gross Profit Margin'', ''Net Profit Margin''] 2023 2024) = 8"
  by code_simp
lemma len_turnover_narrow:
  "length (filter_dff [''Inventory Turnover'', ''Asset Turnover'', ''Trade Receivable Turnover'']
     2023 2024) = 12"
  by code_simp
lemma liquidity_metrics: "map_of metric_groups ''liquidity'' = Some [''Current Ratio'', ''Quick Ratio'']"
  by (simp add: metric_groups_def)
lemma turnover_metrics: "map_of metric_groups ''turnover'' = Some [''Inventory Turnover'', ''Asset Turnover'', ''Trade Receivable Turnover'']"
  by (simp add: metric_groups_def)

text \<open>
  C3. The filtered frame of \<open>update_charts\<close> holds exactly the rows of \<open>df\<close>, in
  their order, whose metric is among the given ones and whose year lies between the
  two bounds, both included. For the metrics of the group liquidity and the range
  2021 to 2025 these are 20 rows; for the metrics of any group and the range 2023
  to 2024 they are 2 years times the number of metrics times 2 companies.
\<close>

theorem filter_dff_spec:
  "filter_dff ms lo hi = filter (\<lambda>r. Metric r \<in> set ms \<and> lo \<le> Year r \<and> Year r \<le> hi) df \<and>
   (\<forall>ms. map_of metric_groups ''liquidity'' = Some ms \<longrightarrow> length (filter_dff ms 2021 2025) = 20) \<and>
   (\<forall>g ms. map_of metric_groups g = Some ms \<longrightarrow>
      length (filter_dff ms 2023 2024) = 2 * length ms * 2)"
proof (intro conjI allI impI)
  show "filter_dff ms lo hi = filter (\<lambda>r. Metric r \<in> set ms \<and> lo \<le> Year r \<and> Year r \<le> hi) df"
    by (rule filter_dff_filter)
next
  fix ms assume "map_of metric_groups ''liquidity'' = Some ms"
  then have "ms = [''Current Ratio'', ''Quick Ratio'']" by (simp add: liquidity_metrics)
  then show "length (filter_dff ms 2021 2025) = 20" by (simp only: len_liquidity_full)
next
  fix g ms assume "map_of metric_groups g = Some ms"
  from metric_groups_cases [OF this]
  show "length (filter_dff ms 2023 2024) = 2 * length ms * 2"
    using len_liquidity_narrow len_profitability_narrow len_turnover_narrow by auto
qed

theorem filter_dff_spec_witness:
  "map_of metric_groups ''turnover'' =
     Some [''Inventory Turnover'', ''Asset Turnover'', ''Trade Receivable Turnover''] \<and>
   length (filter_dff [''Inventory Turnover'', ''Asset Turnover'', ''Trade Receivable Turnover'']
     2023 2024) = 12 \<and>
   map_of metric_groups ''liquidity'' = Some [''Current Ratio'', ''Quick Ratio''] \<and>
   length (filter_dff [''Current Ratio'', ''Quick Ratio''] 2021 2025) = 20"
proof -
  note t = filter_dff_spec [of "[]" 0 0]
  from t turnover_metrics
  have "length (filter_dff [''Inventory Turnover'', ''Asset Turnover'', ''Trade Receivable Turnover'']
     2023 2024) = 2 * length [''Inventory Turnover'', ''Asset Turnover'', ''Trade Receivable Turnover''] * 2"
    by blast
  moreover from t liquidity_metrics
  have "length (filter_dff [''Current Ratio'', ''Quick Ratio''] 2021 2025) = 20" by blast
  ultimately show ?thesis using turnover_metrics liquidity_metrics by simp
qed

section \<open>The KPI cards\<close>

lemma series_years_distinct:
  "distinct (map Year (filter (\<lambda>r. Company r = c \<and> Metric r = m) df))"
proof -
  let ?key = "\<lambda>r. (Company r, Metric r, Year r)"
  let ?sub = "filter (\<lambda>r. Company r = c \<and> Metric r = m) df"
  from df_triples_distinct have d: "distinct df" and i: "inj_on ?key (set df)"
    by (simp_all add: distinct_map)
  have "inj_on Year (set ?sub)"
  proof (rule inj_onI)
    fix x y assume "x \<in> set ?sub" "y \<in> set ?sub" "Year x = Year y"
    then have "?key x = ?key y" "x \<in> set df" "y \<in> set df" by auto
    with i show "x = y" by (blast dest: inj_onD)
  qed
  with d show ?thesis by (simp add: distinct_map)
qed

lemma digit_char_is_digit: "is_digit (digit_char n)"
proof -
  have "n mod 10 < length ''0123456789''" by simp
  then have "''0123456789'' ! (n mod 10) \<in> set ''0123456789''" by (rule nth_mem)
  then show ?thesis by (simp only: is_digit_def digit_char_def)
qed

lemma str_nat_digits: "str_nat n \<noteq> [] \<and> (\<forall>c\<in>set (str_nat n). is_digit c)"
proof (induction n rule: str_nat.induct)
  case (1 n)
  show ?case
  proof (cases "n < 10")
    case True
    then show ?thesis using digit_char_is_digit by (subst (1 2) str_nat.simps) simp
  next
    case False
    with 1 show ?thesis using digit_char_is_digit by (subst (1 2) str_nat.simps) auto
  qed
qed

lemma point_not_digit: "\<not> is_digit CHR ''.''"
  by (simp add: is_digit_def)

lemma format_2f_two_decimals: "two_decimals (format_2f v)"
proof -
  define n where "n = nat (round_half_even (\<bar>v\<bar> * 100))"
  define ip where "ip = (if v < 0 then ''-'' else []) @ str_nat (n div 100)"
  have f: "format_2f v = ip @ ''.'' @ [digit_char (n div 10 mod 10), digit_char (n mod 10)]"
    by (simp add: format_2f_def Let_def n_def ip_def)
  have ne: "ip \<noteq> []" using str_nat_digits [of "n div 100"] by (simp add: ip_def)
  have "CHR ''.'' \<notin> set (str_nat (n div 100))"
    using str_nat_digits [of "n div 100"] point_not_digit by blast
  then have np: "CHR ''.'' \<notin> set ip" by (simp add: ip_def)
  show ?thesis
    unfolding f two_decimals_def using ne np digit_char_is_digit by simp
qed

lemma texts_kpi_card_both:
  "texts (kpi_card ''Both'' m) =
     [m, ''Dixon'', kpi_text (kpi_latest df ''Dixon'' m),
      ''Honeywell'', kpi_text (kpi_latest df ''Honeywell'' m)]"
  by (simp add: kpi_card_def Let_def)

lemma texts_kpi_card_single:
  "c \<noteq> ''Both'' \<Longrightarrow> texts (kpi_card c m) = [m, kpi_text (kpi_latest df c m)]"
  by (simp add: kpi_card_def Let_def)

lemma hd_texts_kpi_card: "hd (texts (kpi_card c m)) = m"
  by (cases "c = ''Both''") (simp_all add: texts_kpi_card_both texts_kpi_card_single)

lemma kpi_gpm_dixon: "kpi_text (kpi_latest df ''Dixon'' ''Gross Profit Margin'') = ''3.25''"
  by code_simp

lemma kpi_gpm_honeywell: "kpi_text (kpi_latest df ''Honeywell'' ''Gross Profit Margin'') = ''12.65''"
  by code_simp

text \<open>
  C6. For every company selection \<open>update_kpis\<close> returns six cards, headed by the
  six metrics of \<open>kpis\<close> in their order (Trade Receivable Turnover is not among
  them). For the selection Both a card shows the metric, then Dixon and Honeywell
  each with the text of its latest value; for any other selection it shows the
  metric and the text of the one latest value. The card of Gross Profit Margin for
  Both shows 3.25 and 12.65. The text of a missing value is the dash, that of a
  value is its \<open>format_2f\<close>, which always has exactly two decimal places. The
  function is total: no selection makes it raise.
\<close>

theorem update_kpis_cards:
  "length (update_kpis c) = 6 \<and>
   map (\<lambda>card. hd (texts card)) (update_kpis c) =
     [''Current Ratio'', ''Quick Ratio'', ''Gross Profit Margin'', ''Net Profit Margin'',
      ''Inventory Turnover'', ''Asset Turnover''] \<and>
   map texts (update_kpis ''Both'') =
     map (\<lambda>m. [m, ''Dixon'', kpi_text (kpi_latest df ''Dixon'' m),
                ''Honeywell'', kpi_text (kpi_latest df ''Honeywell'' m)]) kpis \<and>
   (c \<noteq> ''Both'' \<longrightarrow>
      map texts (update_kpis c) = map (\<lambda>m. [m, kpi_text (kpi_latest df c m)]) kpis) \<and>
   texts (update_kpis ''Both'' ! 2) =
     [''Gross Profit Margin'', ''Dixon'', ''3.25'', ''Honeywell'', ''12.65''] \<and>
   kpi_text None = em_dash \<and>
   (\<forall>v. kpi_text (Some v) = format_2f v \<and> two_decimals (format_2f v))"
proof (intro conjI allI impI)
  show "length (update_kpis c) = 6" by (simp add: update_kpis_def kpis_def)
  show "map (\<lambda>card. hd (texts card)) (update_kpis c) =
     [''Current Ratio'', ''Quick Ratio'', ''Gross Profit Margin'', ''Net Profit Margin'',
      ''Inventory Turnover'', ''Asset Turnover'']"
    by (simp add: update_kpis_def hd_texts_kpi_card comp_def) (simp add: kpis_def)
  show "map texts (update_kpis ''Both'') =
     map (\<lambda>m. [m, ''Dixon'', kpi_text (kpi_latest df ''Dixon'' m),
                ''Honeywell'', kpi_text (kpi_latest df ''Honeywell'' m)]) kpis"
    by (simp add: update_kpis_def texts_kpi_card_both comp_def)
  show "texts (update_kpis ''Both'' ! 2) =
     [''Gross Profit Margin'', ''Dixon'', ''3.25'', ''Honeywell'', ''12.65'']"
    by (simp add: update_kpis_def kpis_def texts_kpi_card_both kpi_gpm_dixon kpi_gpm_honeywell)
  show "kpi_text None = em_dash" by (simp add: kpi_text_def)
next
  assume "c \<noteq> ''Both''"
  then show "map texts (update_kpis c) = map (\<lambda>m. [m, kpi_text (kpi_latest df c m)]) kpis"
    by (simp add: update_kpis_def texts_kpi_card_single comp_def)
next
  fix v show "kpi_text (Some v) = format_2f v" by (simp add: kpi_text_def)
  show "two_decimals (format_2f v)" by (rule format_2f_two_decimals)
qed

lemma kpi_texts_dixon:
  "map (\<lambda>m. [m, kpi_text (kpi_latest df ''Dixon'' m)]) kpis =
     [[''Current Ratio'', ''1.33''], [''Quick Ratio'', ''1.01''],
      [''Gross Profit Margin'', ''3.25''], [''Net Profit Margin'', ''2.82''],
      [''Inventory Turnover'', ''12.69''], [''Asset Turnover'', ''2.30'']]"
  by code_simp

lemma kpi_texts_acme:
  "map (\<lambda>m. [m, kpi_text (kpi_latest df ''Acme'' m)]) kpis =
     [[''Current Ratio'', em_dash], [''Quick Ratio'', em_dash],
      [''Gross Profit Margin'', em_dash], [''Net Profit Margin'', em_dash],
      [''Inventory Turnover'', em_dash], [''Asset Turnover'', em_dash]]"
  by code_simp

theorem update_kpis_cards_witness:
  "''Dixon'' \<noteq> ''Both'' \<and>
   map texts (update_kpis ''Dixon'') =
     [[''Current Ratio'', ''1.33''], [''Quick Ratio'', ''1.01''],
      [''Gross Profit Margin'', ''3.25''], [''Net Profit Margin'', ''2.82''],
      [''Inventory Turnover'', ''12.69''], [''Asset Turnover'', ''2.30'']] \<and>
   ''Acme'' \<noteq> ''Both'' \<and>
   map texts (update_kpis ''Acme'') =
     [[''Current Ratio'', em_dash], [''Quick Ratio'', em_dash],
      [''Gross Profit Margin'', em_dash], [''Net Profit Margin'', em_dash],
      [''Inventory Turnover'', em_dash], [''Asset Turnover'', em_dash]]"
  using update_kpis_cards [of "''Dixon''"] update_kpis_cards [of "''Acme''"]
  by (simp add: kpi_texts_dixon kpi_texts_acme)

text \<open>
  C5. The KPI cards depend on the company selection only: changing the metric
  group and the year range of the controls leaves \<open>kpi_cards_output\<close> unchanged, two
  control states with the same company give the same cards, and the cards are
  those of \<open>kpi_card\<close>, which reads the whole table \<open>df\<close>.
\<close>

theorem kpi_cards_company_only:
  "kpi_cards_output (st\<lparr>metric_group := g, year_range_value := yr\<rparr>) = kpi_cards_output st \<and>
   (\<forall>st'. company_select st' = company_select st \<longrightarrow> kpi_cards_output st' = kpi_cards_output st) \<and>
   kpi_cards_output st = map (kpi_card (company_select st)) kpis"
  by (simp add: kpi_cards_output_def update_kpis_def)

theorem kpi_cards_company_only_witness:
  "company_select \<lparr>company_select = ''Dixon'', metric_group = ''turnover'', year_range_value = [2021, 2022]\<rparr>
     = company_select \<lparr>company_select = ''Dixon'', metric_group = ''liquidity'', year_range_value = [2021, 2025]\<rparr> \<and>
   kpi_cards_output \<lparr>company_select = ''Dixon'', metric_group = ''turnover'', year_range_value = [2021, 2022]\<rparr>
     = kpi_cards_output \<lparr>company_select = ''Dixon'', metric_group = ''liquidity'', year_range_value = [2021, 2025]\<rparr> \<and>
   map texts (kpi_cards_output \<lparr>company_select = ''Dixon'', metric_group = ''turnover'', year_range_value = [2021, 2022]\<rparr>) =
     [[''Current Ratio'', ''1.33''], [''Quick Ratio'', ''1.01''],
      [''Gross Profit Margin'', ''3.25''], [''Net Profit Margin'', ''2.82''],
      [''Inventory Turnover'', ''12.69''], [''Asset Turnover'', ''2.30'']]"
proof -
  let ?a = "\<lparr>company_select = ''Dixon'', metric_group = ''turnover'', year_range_value = [2021, 2022]\<rparr>"
  let ?b = "\<lparr>company_select = ''Dixon'', metric_group = ''liquidity'', year_range_value = [2021, 2025]\<rparr>"
  have e: "company_select ?a = company_select ?b" by simp
  from kpi_cards_company_only [where st = ?b] e
  have 1: "kpi_cards_output ?a = kpi_cards_output ?b" by blast
  have 2: "map texts (kpi_cards_output ?a) = map (\<lambda>m. [m, kpi_text (kpi_latest df ''Dixon'' m)]) kpis"
    by (simp add: kpi_cards_output_def update_kpis_def texts_kpi_card_single comp_def)
  from e 1 2 show ?thesis by (simp only: kpi_texts_dixon simp_thms)
qed

section \<open>The callback of the charts\<close>

lemma update_charts_valid:
  assumes "map_of metric_groups g = Some ms"
  shows "update_charts c g [lo, hi] =
    Inr \<lparr>main_chart = build_fig (filter_dff ms lo hi) c g ms,
         spark_chart = build_spark (filter_dff ms lo hi) c (hd ms),
         data_table = round_table (pivot_table (filter_dff ms lo hi))\<rparr>"
proof -
  from metric_groups_cases [OF assms] obtain m ms' where "ms = m # ms'" by blast
  with assms show ?thesis by (simp add: update_charts_def getitem_def Let_def)
qed

lemma update_charts_unknown_group:
  assumes "g \<notin> {''liquidity'', ''profitability'', ''turnover''}"
  shows "update_charts c g [lo, hi] = Inl KeyError"
proof -
  from assms have "map_of metric_groups g = None" by (simp add: metric_groups_def)
  then show ?thesis by (simp add: update_charts_def)
qed

lemma filter_dff_empty_range: "hi < lo \<Longrightarrow> filter_dff ms lo hi = []"
  by (auto simp add: filter_dff_filter filter_empty_conv)

lemma series_mc_filter_dff:
  assumes "m \<in> set ms"
  shows "series_mc (filter_dff ms lo hi) m c =
     sort_key Year (filter (\<lambda>r. Metric r = m \<and> Company r = c \<and> lo \<le> Year r \<and> Year r \<le> hi) df)"
proof -
  have "filter (\<lambda>r. Metric r = m \<and> Company r = c)
          (filter (\<lambda>r. Metric r \<in> set ms \<and> lo \<le> Year r \<and> Year r \<le> hi) df) =
        filter (\<lambda>r. Metric r = m \<and> Company r = c \<and> lo \<le> Year r \<and> Year r \<le> hi) df"
    using assms by (auto intro: filter_cong)
  then show ?thesis by (simp add: series_mc_filter filter_dff_filter)
qed

lemma tname_bar_trace: "tname (bar_trace s n) = n"
  by (simp add: bar_trace_def)

lemma main_chart_names:
  "map tname (traces (build_fig d c g ms)) =
     (if c = ''Both''
      then concat (map (\<lambda>m. [''Dixon'' @ '' '' @ em_dash @ '' '' @ m,
                              ''Honeywell'' @ '' '' @ em_dash @ '' '' @ m]) ms)
      else ms)"
  by (simp add: build_fig_def tname_bar_trace map_concat comp_def)

lemma build_fig_empty:
  "traces (build_fig [] c g ms) =
     (if c = ''Both''
      then concat (map (\<lambda>m. [Bar [] [] (''Dixon'' @ '' '' @ em_dash @ '' '' @ m) [] ''auto'',
                              Bar [] [] (''Honeywell'' @ '' '' @ em_dash @ '' '' @ m) [] ''auto'']) ms)
      else map (\<lambda>m. Bar [] [] m [] ''auto'') ms)"
  by (simp add: build_fig_def bar_trace_def series_mc_filter series_cm_filter col_def)

lemma build_spark_empty:
  "traces (build_spark [] c p) =
     (if c = ''Both''
      then [Scatter [] [] ''lines+markers'' ''Dixon'', Scatter [] [] ''lines+markers'' ''Honeywell'']
      else [Scatter [] [] ''lines+markers'' c])"
  by (simp add: build_spark_def scatter_trace_def series_mc_filter col_def)

lemma pivot_table_empty: "pivot_table [] = \<lparr>pindex = [], pcolumns = [], pvalues = []\<rparr>"
  by (simp add: pivot_table_def)

lemma round_table_empty:
  "round_table \<lparr>pindex = [], pcolumns = [], pvalues = []\<rparr> = \<lparr>pindex = [], pcolumns = [], pvalues = []\<rparr>"
  by (simp add: round_table_def)

text \<open>
  C7. When the lower bound of the year range is above the upper one, and the group
  is one of \<open>metric_groups\<close>, \<open>update_charts\<close> does not raise: it returns a main
  chart with one trace per metric of the group (per metric and company for Both),
  each without a point, a sparkline whose traces have no point, and a table
  without rows (and without columns).
\<close>

theorem empty_year_range:
  assumes "hi < lo" and "map_of metric_groups g = Some ms"
  shows "\<exists>res. update_charts c g [lo, hi] = Inr res \<and>
     traces (main_chart res) =
       (if c = ''Both''
        then concat (map (\<lambda>m. [Bar [] [] (''Dixon'' @ '' '' @ em_dash @ '' '' @ m) [] ''auto'',
                                Bar [] [] (''Honeywell'' @ '' '' @ em_dash @ '' '' @ m) [] ''auto'']) ms)
        else map (\<lambda>m. Bar [] [] m [] ''auto'') ms) \<and>
     (\<forall>t\<in>set (traces (main_chart res)). tx t = [] \<and> ty t = []) \<and>
     traces (spark_chart res) =
       (if c = ''Both''
        then [Scatter [] [] ''lines+markers'' ''Dixon'', Scatter [] [] ''lines+markers'' ''Honeywell'']
        else [Scatter [] [] ''lines+markers'' c]) \<and>
     data_table res = \<lparr>pindex = [], pcolumns = [], pvalues = []\<rparr>"
proof -
  from assms(1) have e: "filter_dff ms lo hi = []" by (rule filter_dff_empty_range)
  show ?thesis
    unfolding update_charts_valid [OF assms(2)] e
    by (auto simp add: build_fig_empty build_spark_empty pivot_table_empty round_table_empty)
qed

theorem empty_year_range_witness:
  "(2021 :: int) < 2025 \<and>
   map_of metric_groups ''liquidity'' = Some [''Current Ratio'', ''Quick Ratio''] \<and>
   (\<exists>res. update_charts ''Dixon'' ''liquidity'' [2025, 2021] = Inr res \<and>
      traces (main_chart res) =
        [Bar [] [] ''Current Ratio'' [] ''auto'', Bar [] [] ''Quick Ratio'' [] ''auto''] \<and>
      traces (spark_chart res) = [Scatter [] [] ''lines+markers'' ''Dixon''] \<and>
      data_table res = \<lparr>pindex = [], pcolumns = [], pvalues = []\<rparr>)"
proof -
  have h: "(2021 :: int) < 2025" by simp
  from empty_year_range [OF h liquidity_metrics, of "''Dixon''"]
  obtain res where a: "update_charts ''Dixon'' ''liquidity'' [2025, 2021] = Inr res"
    and b: "traces (main_chart res) =
        [Bar [] [] ''Current Ratio'' [] ''auto'', Bar [] [] ''Quick Ratio'' [] ''auto'']"
    and c: "traces (spark_chart res) = [Scatter [] [] ''lines+markers'' ''Dixon'']"
    and d: "data_table res = \<lparr>pindex = [], pcolumns = [], pvalues = []\<rparr>"
    by auto
  show ?thesis by (intro conjI exI [of _ res] h liquidity_metrics a b c d)
qed

text \<open>
  C8. For a group of \<open>metric_groups\<close>, any company selection and any two bounds,
  \<open>update_charts\<close> returns; the sparkline is built from the first metric of the
  group's list alone (Current Ratio for liquidity, Gross Profit Margin for
  profitability, Inventory Turnover for turnover): its traces are the series, by
  ascending year, of the rows of \<open>df\<close> of that metric, of the company and in the
  range, and its title names that metric. The traces of the main chart are named
  company, dash, metric for the selection Both, and by the metric alone otherwise.
\<close>

theorem sparkline_and_names:
  assumes "map_of metric_groups g = Some ms"
  shows "\<exists>res. update_charts c g [lo, hi] = Inr res \<and>
     hd ms = (if g = ''liquidity'' then ''Current Ratio''
              else if g = ''profitability'' then ''Gross Profit Margin''
              else ''Inventory Turnover'') \<and>
     traces (spark_chart res) =
       map (\<lambda>co. Scatter
             (map YearLabel (sort_key Year (filter (\<lambda>r. Metric r = hd ms \<and> Company r = co \<and>
                lo \<le> Year r \<and> Year r \<le> hi) df)))
             (map Value (sort_key Year (filter (\<lambda>r. Metric r = hd ms \<and> Company r = co \<and>
                lo \<le> Year r \<and> Year r \<le> hi) df)))
             ''lines+markers'' co)
         (if c = ''Both'' then [''Dixon'', ''Honeywell''] else [c]) \<and>
     layout (spark_chart res) =
       [(''title'', LStr (''Trend '' @ em_dash @ '' '' @ hd ms)),
        (''margin'', LDict [(''t'', 30), (''b'', 10), (''l'', 30), (''r'', 10)]),
        (''height'', LInt 240)] \<and>
     map tname (traces (main_chart res)) =
       (if c = ''Both''
        then concat (map (\<lambda>m. [''Dixon'' @ '' '' @ em_dash @ '' '' @ m,
                                ''Honeywell'' @ '' '' @ em_dash @ '' '' @ m]) ms)
        else ms)"
proof -
  from metric_groups_cases [OF assms]
  have hd: "hd ms = (if g = ''liquidity'' then ''Current Ratio''
              else if g = ''profitability'' then ''Gross Profit Margin''
              else ''Inventory Turnover'')"
    by (elim disjE conjE) simp_all
  from metric_groups_cases [OF assms] have mem: "hd ms \<in> set ms"
    by (elim disjE conjE) simp_all
  have sp: "traces (build_spark (filter_dff ms lo hi) c (hd ms)) =
       map (\<lambda>co. Scatter
             (map YearLabel (sort_key Year (filter (\<lambda>r. Metric r = hd ms \<and> Company r = co \<and>
                lo \<le> Year r \<and> Year r \<le> hi) df)))
             (map Value (sort_key Year (filter (\<lambda>r. Metric r = hd ms \<and> Company r = co \<and>
                lo \<le> Year r \<and> Year r \<le> hi) df)))
             ''lines+markers'' co)
         (if c = ''Both'' then [''Dixon'', ''Honeywell''] else [c])"
    by (simp add: build_spark_def scatter_trace_def series_mc_filter_dff [OF mem] col_def)
  have ly: "layout (build_spark (filter_dff ms lo hi) c (hd ms)) =
       [(''title'', LStr (''Trend '' @ em_dash @ '' '' @ hd ms)),
        (''margin'', LDict [(''t'', 30), (''b'', 10), (''l'', 30), (''r'', 10)]),
        (''height'', LInt 240)]"
    by (simp add: build_spark_def)
  show ?thesis
    unfolding update_charts_valid [OF assms]
    using hd sp ly main_chart_names by simp
qed

lemma dixon_inventory_23_24:
  "sort_key Year (filter (\<lambda>r. Metric r = ''Inventory Turnover'' \<and> Company r = ''Dixon'' \<and>
      2023 \<le> Year r \<and> Year r \<le> 2024) df) =
   [\<lparr>Company = ''Dixon'', Metric = ''Inventory Turnover'', Value = 10.42333314,
      YearLabel = ''Mar-23'', Year = 2023\<rparr>,
    \<lparr>Company = ''Dixon'', Metric = ''Inventory Turnover'', Value = 12.16973252,
      YearLabel = ''Mar-24'', Year = 2024\<rparr>]"
  by code_simp

theorem sparkline_and_names_witness:
  "map_of metric_groups ''turnover'' =
     Some [''Inventory Turnover'', ''Asset Turnover'', ''Trade Receivable Turnover''] \<and>
   (\<exists>res. update_charts ''Dixon'' ''turnover'' [2023, 2024] = Inr res \<and>
      traces (spark_chart res) =
        [Scatter [''Mar-23'', ''Mar-24''] [10.42333314, 12.16973252] ''lines+markers'' ''Dixon''] \<and>
      map tname (traces (main_chart res)) =
        [''Inventory Turnover'', ''Asset Turnover'', ''Trade Receivable Turnover''])"
proof -
  from sparkline_and_names [OF turnover_metrics, of "''Dixon''" 2023 2024]
  obtain res where a: "update_charts ''Dixon'' ''turnover'' [2023, 2024] = Inr res"
    and b: "traces (spark_chart res) =
        [Scatter [''Mar-23'', ''Mar-24''] [10.42333314, 12.16973252] ''lines+markers'' ''Dixon'']"
    and c: "map tname (traces (main_chart res)) =
        [''Inventory Turnover'', ''Asset Turnover'', ''Trade Receivable Turnover'']"
    by (auto simp add: dixon_inventory_23_24)
  show ?thesis by (intro conjI exI [of _ res] turnover_metrics a b c)
qed

section \<open>The pivoted table\<close>

lemma position_None: "position xs a = None \<longleftrightarrow> a \<notin> set xs"
  by (induction xs) auto

lemma position_Some: "position xs a = Some i \<Longrightarrow> i < length xs \<and> xs ! i = a"
  by (induction xs arbitrary: i) (auto split: if_splits)

lemma group_values_empty:
  "\<not> (\<exists>r\<in>set d. YearLabel r = yl \<and> (Company r, Metric r) = cm) \<Longrightarrow> group_values d yl cm = []"
  by (auto simp add: group_values_def filter_empty_conv)

lemma agg_mean_absent:
  "\<not> (\<exists>r\<in>set d. YearLabel r = yl \<and> (Company r, Metric r) = cm) \<Longrightarrow> agg_mean d yl cm = None"
  by (simp add: agg_mean_def group_values_empty)

lemma pindex_pivot_table: "pindex (pivot_table d) = sort (remdups (map YearLabel d))"
  by (simp add: pivot_table_def Let_def)

lemma pcolumns_pivot_table:
  "pcolumns (pivot_table d) = sort (remdups (map (\<lambda>r. (Company r, Metric r)) d))"
  by (simp add: pivot_table_def Let_def)

lemma pvalues_pivot_table:
  "pvalues (pivot_table d) =
     map (\<lambda>yl. map (\<lambda>cm. agg_mean d yl cm) (pcolumns (pivot_table d))) (pindex (pivot_table d))"
  by (simp add: pivot_table_def Let_def)

lemma cell_pivot_table: "cell (pivot_table d) yl cm = agg_mean d yl cm"
proof (cases "position (pindex (pivot_table d)) yl")
  case None
  then have "yl \<notin> YearLabel ` set d" by (simp add: position_None pindex_pivot_table)
  then have "agg_mean d yl cm = None" by (intro agg_mean_absent) auto
  with None show ?thesis by (simp add: cell_def)
next
  case (Some i)
  note i = position_Some [OF Some]
  show ?thesis
  proof (cases "position (pcolumns (pivot_table d)) cm")
    case None
    then have "cm \<notin> (\<lambda>r. (Company r, Metric r)) ` set d"
      by (simp add: position_None pcolumns_pivot_table)
    then have "agg_mean d yl cm = None" by (intro agg_mean_absent) auto
    with None Some show ?thesis by (simp add: cell_def)
  next
    case j: (Some j)
    note j' = position_Some [OF j]
    from i j' have "pvalues (pivot_table d) ! i ! j = agg_mean d yl cm"
      by (simp add: pvalues_pivot_table)
    with Some j show ?thesis by (simp add: cell_def)
  qed
qed

lemma cell_round_pivot_table:
  "cell (round_table (pivot_table d)) yl cm = map_option round_3 (agg_mean d yl cm)"
proof (cases "position (pindex (pivot_table d)) yl")
  case None
  then have "yl \<notin> YearLabel ` set d" by (simp add: position_None pindex_pivot_table)
  then have "agg_mean d yl cm = None" by (intro agg_mean_absent) auto
  with None show ?thesis by (simp add: cell_def round_table_def)
next
  case (Some i)
  note i = position_Some [OF Some]
  show ?thesis
  proof (cases "position (pcolumns (pivot_table d)) cm")
    case None
    then have "cm \<notin> (\<lambda>r. (Company r, Metric r)) ` set d"
      by (simp add: position_None pcolumns_pivot_table)
    then have "agg_mean d yl cm = None" by (intro agg_mean_absent) auto
    with None Some show ?thesis by (simp add: cell_def round_table_def)
  next
    case j: (Some j)
    note j' = position_Some [OF j]
    from i j' have "map (map (map_option round_3)) (pvalues (pivot_table d)) ! i ! j
        = map_option round_3 (agg_mean d yl cm)"
      by (simp add: pvalues_pivot_table)
    with Some j show ?thesis by (simp add: cell_def round_table_def)
  qed
qed

lemma pivot_labels:
  "set (pindex (pivot_table d)) = YearLabel ` set d \<and> distinct (pindex (pivot_table d)) \<and>
   set (pcolumns (pivot_table d)) = (\<lambda>r. (Company r, Metric r)) ` set d \<and>
   distinct (pcolumns (pivot_table d)) \<and>
   sorted (pindex (pivot_table d)) \<and> sorted (pcolumns (pivot_table d))"
  by (simp add: pindex_pivot_table pcolumns_pivot_table)

lemma find_filter: "find P xs = (case filter P xs of [] \<Rightarrow> None | x # _ \<Rightarrow> Some x)"
  by (induction xs) auto

lemma distinct_key_filter:
  "distinct (map f xs) \<Longrightarrow> filter (\<lambda>x. f x = k) xs = [] \<or> (\<exists>x. filter (\<lambda>x. f x = k) xs = [x])"
proof (induction xs)
  case Nil then show ?case by simp
next
  case (Cons a xs)
  show ?case
  proof (cases "f a = k")
    case True
    with Cons.prems have "k \<notin> f ` set xs" by simp
    then have "filter (\<lambda>x. f x = k) xs = []"
      by (auto simp add: filter_empty_conv)
    with True show ?thesis by simp
  next
    case False
    with Cons show ?thesis by simp
  qed
qed

lemma mean_single: "mean [v] = v"
  by (simp add: mean_def)

lemma agg_mean_lookup:
  assumes "distinct (map (\<lambda>r. (YearLabel r, Company r, Metric r)) d)"
  shows "agg_mean d yl cm =
     map_option Value (find (\<lambda>r. YearLabel r = yl \<and> (Company r, Metric r) = cm) d)"
proof -
  have p: "(\<lambda>r. YearLabel r = yl \<and> (Company r, Metric r) = cm) =
           (\<lambda>r. (YearLabel r, Company r, Metric r) = (yl, cm))" by auto
  from distinct_key_filter [OF assms, of "(yl, cm)"]
  show ?thesis
    unfolding agg_mean_def group_values_def find_filter p
    by (auto simp add: mean_single)
qed

lemma pivot_table_lookup:
  assumes "distinct (map (\<lambda>r. (YearLabel r, Company r, Metric r)) d)"
  shows "pivot_table d = pivot_lookup d"
  by (simp add: pivot_table_def pivot_lookup_def agg_mean_lookup [OF assms])

lemma agg_mean_present:
  assumes "distinct (map (\<lambda>r. (YearLabel r, Company r, Metric r)) d)" and "r \<in> set d"
  shows "agg_mean d (YearLabel r) (Company r, Metric r) = Some (Value r)"
proof -
  let ?P = "\<lambda>x. (YearLabel x, Company x, Metric x) = (YearLabel r, Company r, Metric r)"
  from assms(2) have mem: "r \<in> set (filter ?P d)" by simp
  from distinct_key_filter [OF assms(1), of "(YearLabel r, Company r, Metric r)"]
  consider "filter ?P d = []" | x where "filter ?P d = [x]" by blast
  then have "filter ?P d = [r]"
  proof cases
    case 1
    from mem show ?thesis unfolding 1 by simp
  next
    case 2
    from mem show ?thesis unfolding 2 by simp
  qed
  moreover have "(\<lambda>x. YearLabel x = YearLabel r \<and> (Company x, Metric x) = (Company r, Metric r)) = ?P"
    by auto
  ultimately show ?thesis by (simp add: agg_mean_def group_values_def mean_single)
qed

lemma agg_mean_Some:
  assumes "distinct (map (\<lambda>r. (YearLabel r, Company r, Metric r)) d)"
    and "agg_mean d yl cm = Some v"
  shows "\<exists>r\<in>set d. YearLabel r = yl \<and> (Company r, Metric r) = cm \<and> Value r = v"
proof -
  from assms have "find (\<lambda>r. YearLabel r = yl \<and> (Company r, Metric r) = cm) d \<noteq> None"
    by (auto simp add: agg_mean_lookup)
  then obtain r where f: "find (\<lambda>r. YearLabel r = yl \<and> (Company r, Metric r) = cm) d = Some r"
    by auto
  then have "r \<in> set d" "YearLabel r = yl \<and> (Company r, Metric r) = cm"
    by (auto simp add: find_Some_iff)
  moreover from assms f have "Value r = v" by (simp add: agg_mean_lookup)
  ultimately show ?thesis by blast
qed

lemma df_label_triples_distinct:
  "distinct (map (\<lambda>r. (YearLabel r, Company r, Metric r)) df)"
  by code_simp

lemma filter_dff_distinct:
  "distinct (map (\<lambda>r. (YearLabel r, Company r, Metric r)) (filter_dff ms lo hi))"
  unfolding filter_dff_filter using df_label_triples_distinct by (rule distinct_map_filter)

lemma liquidity_table:
  "pivot_table (filter_dff [''Current Ratio'', ''Quick Ratio''] 2021 2025) =
    \<lparr>pindex = [''Mar-21'', ''Mar-22'', ''Mar-23'', ''Mar-24'', ''Mar-25''],
     pcolumns = [(''Dixon'', ''Current Ratio''), (''Dixon'', ''Quick Ratio''),
                 (''Honeywell'', ''Current Ratio''), (''Honeywell'', ''Quick Ratio'')],
     pvalues = [[Some 1.17, Some 1.12, Some 2.72, Some 2.61],
                [Some 1.15, Some 1.14, Some 3.26, Some 3.13],
                [Some 1.07, Some 1.27, Some 3.41, Some 3.22],
                [Some 1.48, Some 1.12, Some 3.66, Some 3.49],
                [Some 1.33, Some 1.01, Some 3.45, Some 3.24]]\<rparr>"
  by code_simp

lemma round_3_127: "round_3 1.27 = 1.27"
  by code_simp

text \<open>
  C4. The pivot of the liquidity rows of 2021 to 2025 is keyed by the five year
  labels and has one column for each of the four pairs of company and metric among
  those rows; its cell for Mar-23, Dixon and Quick Ratio holds 1.27, also in the
  rounded table that \<open>update_charts\<close> returns. For any frame, the row labels are the
  year labels that occur, the columns are the pairs that occur, each once, and a
  cell whose year label, company and metric have no row holds no value (never a
  zero), before and after rounding.
\<close>

theorem liquidity_pivot:
  "pindex (pivot_table (filter_dff [''Current Ratio'', ''Quick Ratio''] 2021 2025)) =
     [''Mar-21'', ''Mar-22'', ''Mar-23'', ''Mar-24'', ''Mar-25''] \<and>
   pcolumns (pivot_table (filter_dff [''Current Ratio'', ''Quick Ratio''] 2021 2025)) =
     [(''Dixon'', ''Current Ratio''), (''Dixon'', ''Quick Ratio''),
      (''Honeywell'', ''Current Ratio''), (''Honeywell'', ''Quick Ratio'')] \<and>
   cell (pivot_table (filter_dff [''Current Ratio'', ''Quick Ratio''] 2021 2025))
     ''Mar-23'' (''Dixon'', ''Quick Ratio'') = Some 1.27 \<and>
   (\<exists>res. update_charts ''Both'' ''liquidity'' [2021, 2025] = Inr res \<and>
      cell (data_table res) ''Mar-23'' (''Dixon'', ''Quick Ratio'') = Some 1.27) \<and>
   (\<forall>d. set (pindex (pivot_table d)) = YearLabel ` set d \<and>
        distinct (pindex (pivot_table d)) \<and>
        set (pcolumns (pivot_table d)) = (\<lambda>r. (Company r, Metric r)) ` set d \<and>
        distinct (pcolumns (pivot_table d))) \<and>
   (\<forall>d yl c m. \<not> (\<exists>r\<in>set d. YearLabel r = yl \<and> Company r = c \<and> Metric r = m) \<longrightarrow>
        cell (pivot_table d) yl (c, m) = None \<and>
        cell (round_table (pivot_table d)) yl (c, m) = None)"
proof (intro conjI allI impI)
  let ?t = "pivot_table (filter_dff [''Current Ratio'', ''Quick Ratio''] 2021 2025)"
  show "pindex ?t = [''Mar-21'', ''Mar-22'', ''Mar-23'', ''Mar-24'', ''Mar-25'']"
    by (simp only: liquidity_table pivot.simps)
  show "pcolumns ?t =
     [(''Dixon'', ''Current Ratio''), (''Dixon'', ''Quick Ratio''),
      (''Honeywell'', ''Current Ratio''), (''Honeywell'', ''Quick Ratio'')]"
    by (simp only: liquidity_table pivot.simps)
  show c: "cell ?t ''Mar-23'' (''Dixon'', ''Quick Ratio'') = Some 1.27"
    unfolding liquidity_table by (simp add: cell_def)
  from c have a: "agg_mean (filter_dff [''Current Ratio'', ''Quick Ratio''] 2021 2025)
      ''Mar-23'' (''Dixon'', ''Quick Ratio'') = Some 1.27"
    by (simp only: cell_pivot_table)
  have "cell (round_table ?t) ''Mar-23'' (''Dixon'', ''Quick Ratio'') = Some 1.27"
    by (simp only: cell_round_pivot_table a option.map round_3_127)
  then show "\<exists>res. update_charts ''Both'' ''liquidity'' [2021, 2025] = Inr res \<and>
      cell (data_table res) ''Mar-23'' (''Dixon'', ''Quick Ratio'') = Some 1.27"
    by (simp add: update_charts_valid [OF liquidity_metrics])
next
  fix d :: frame
  show "set (pindex (pivot_table d)) = YearLabel ` set d"
    "distinct (pindex (pivot_table d))"
    "set (pcolumns (pivot_table d)) = (\<lambda>r. (Company r, Metric r)) ` set d"
    "distinct (pcolumns (pivot_table d))"
    using pivot_labels [of d] by simp_all
next
  fix d :: frame and yl c m
  assume "\<not> (\<exists>r\<in>set d. YearLabel r = yl \<and> Company r = c \<and> Metric r = m)"
  then have a: "agg_mean d yl (c, m) = None" by (intro agg_mean_absent) simp
  from a show "cell (pivot_table d) yl (c, m) = None" by (simp add: cell_pivot_table)
  from a show "cell (round_table (pivot_table d)) yl (c, m) = None"
    by (simp add: cell_round_pivot_table)
qed

lemma liquidity_no_asset_turnover:
  "\<not> (\<exists>r\<in>set (filter_dff [''Current Ratio'', ''Quick Ratio''] 2021 2025).
        YearLabel r = ''Mar-23'' \<and> Company r = ''Dixon'' \<and> Metric r = ''Asset Turnover'')"
  by code_simp

theorem liquidity_pivot_witness:
  "\<not> (\<exists>r\<in>set (filter_dff [''Current Ratio'', ''Quick Ratio''] 2021 2025).
        YearLabel r = ''Mar-23'' \<and> Company r = ''Dixon'' \<and> Metric r = ''Asset Turnover'') \<and>
   cell (pivot_table (filter_dff [''Current Ratio'', ''Quick Ratio''] 2021 2025))
     ''Mar-23'' (''Dixon'', ''Asset Turnover'') = None \<and>
   cell (round_table (pivot_table (filter_dff [''Current Ratio'', ''Quick Ratio''] 2021 2025)))
     ''Mar-23'' (''Dixon'', ''Asset Turnover'') = None"
proof -
  note t = liquidity_pivot [THEN conjunct2, THEN conjunct2, THEN conjunct2, THEN conjunct2,
    THEN conjunct2, rule_format, OF liquidity_no_asset_turnover]
  from t liquidity_no_asset_turnover show ?thesis by (intro conjI) simp_all
qed

text \<open>
  C10. On the frames \<open>update_charts\<close> pivots, the mean of \<open>pivot_table\<close> is a plain
  lookup: the table equals \<open>pivot_lookup\<close> of the frame, the cell of every row of
  the frame holds exactly that row's value, and every value in the table is the
  value of a row with the cell's year label, company and metric. This holds for
  any frame in which no two rows share year label, company and metric, as in \<open>df\<close>.
\<close>

theorem pivot_mean_is_lookup:
  "pivot_table (filter_dff ms lo hi) = pivot_lookup (filter_dff ms lo hi) \<and>
   (\<forall>r\<in>set (filter_dff ms lo hi).
      cell (pivot_table (filter_dff ms lo hi)) (YearLabel r) (Company r, Metric r)
        = Some (Value r)) \<and>
   (\<forall>yl cm v. cell (pivot_table (filter_dff ms lo hi)) yl cm = Some v \<longrightarrow>
      (\<exists>r\<in>set (filter_dff ms lo hi).
         YearLabel r = yl \<and> (Company r, Metric r) = cm \<and> Value r = v)) \<and>
   distinct (map (\<lambda>r. (YearLabel r, Company r, Metric r)) df) \<and>
   (\<forall>d. distinct (map (\<lambda>r. (YearLabel r, Company r, Metric r)) d) \<longrightarrow>
      pivot_table d = pivot_lookup d)"
proof (intro conjI allI impI ballI)
  show "pivot_table (filter_dff ms lo hi) = pivot_lookup (filter_dff ms lo hi)"
    using filter_dff_distinct by (rule pivot_table_lookup)
  show "distinct (map (\<lambda>r. (YearLabel r, Company r, Metric r)) df)"
    by (rule df_label_triples_distinct)
next
  fix r assume "r \<in> set (filter_dff ms lo hi)"
  with filter_dff_distinct
  show "cell (pivot_table (filter_dff ms lo hi)) (YearLabel r) (Company r, Metric r)
        = Some (Value r)"
    unfolding cell_pivot_table by (rule agg_mean_present)
next
  fix yl cm v assume "cell (pivot_table (filter_dff ms lo hi)) yl cm = Some v"
  then have "agg_mean (filter_dff ms lo hi) yl cm = Some v" by (simp only: cell_pivot_table)
  with filter_dff_distinct
  show "\<exists>r\<in>set (filter_dff ms lo hi).
         YearLabel r = yl \<and> (Company r, Metric r) = cm \<and> Value r = v"
    by (rule agg_mean_Some)
next
  fix d :: frame
  assume "distinct (map (\<lambda>r. (YearLabel r, Company r, Metric r)) d)"
  then show "pivot_table d = pivot_lookup d" by (rule pivot_table_lookup)
qed

lemma turnover_row_member:
  "\<lparr>Company = ''Dixon'', Metric = ''Inventory Turnover'', Value = 10.41597944,
     YearLabel = ''Mar-22'', Year = 2022\<rparr>
   \<in> set (filter_dff [''Inventory Turnover'', ''Asset Turnover'', ''Trade Receivable Turnover'']
       2022 2024)"
  by code_simp

theorem pivot_mean_is_lookup_witness:
  "\<lparr>Company = ''Dixon'', Metric = ''Inventory Turnover'', Value = 10.41597944,
     YearLabel = ''Mar-22'', Year = 2022\<rparr>
   \<in> set (filter_dff [''Inventory Turnover'', ''Asset Turnover'', ''Trade Receivable Turnover'']
       2022 2024) \<and>
   cell (pivot_table
       (filter_dff [''Inventory Turnover'', ''Asset Turnover'', ''Trade Receivable Turnover'']
         2022 2024))
     ''Mar-22'' (''Dixon'', ''Inventory Turnover'') = Some 10.41597944"
proof -
  note t = pivot_mean_is_lookup [THEN conjunct2, THEN conjunct1, rule_format,
    OF turnover_row_member]
  from t have "cell (pivot_table
       (filter_dff [''Inventory Turnover'', ''Asset Turnover'', ''Trade Receivable Turnover'']
         2022 2024))
     ''Mar-22'' (''Dixon'', ''Inventory Turnover'') = Some 10.41597944"
    by simp
  with turnover_row_member show ?thesis by (intro conjI)
qed

section \<open>Selections outside the dataset\<close>

lemma series_absent:
  assumes "\<not> (\<exists>r\<in>set d. Company r = c \<and> Metric r = m)"
  shows "series_mc d m c = []" and "series_cm d c m = []"
proof -
  from assms have "filter (\<lambda>r. Metric r = m \<and> Company r = c) d = []"
    by (auto simp add: filter_empty_conv)
  then show "series_mc d m c = []" by (simp add: series_mc_filter)
  from assms have "filter (\<lambda>r. Company r = c \<and> Metric r = m) d = []"
    by (auto simp add: filter_empty_conv)
  then show "series_cm d c m = []" by (simp add: series_cm_filter)
qed

lemma unknown_company_charts:
  assumes g: "map_of metric_groups g = Some ms" and c: "c \<noteq> ''Both''"
    and a: "\<not> (\<exists>r\<in>set df. Company r = c)"
  shows "\<exists>res. update_charts c g [lo, hi] = Inr res \<and>
     traces (main_chart res) = map (\<lambda>m. Bar [] [] m [] ''auto'') ms \<and>
     traces (spark_chart res) = [Scatter [] [] ''lines+markers'' c]"
proof -
  have "\<not> (\<exists>r\<in>set (filter_dff ms lo hi). Company r = c \<and> Metric r = m)" for m
    using a by (auto simp add: filter_dff_filter)
  then have s: "series_mc (filter_dff ms lo hi) m c = []" "series_cm (filter_dff ms lo hi) c m = []" for m
    by (simp_all add: series_absent)
  show ?thesis
    unfolding update_charts_valid [OF g]
    using c by (simp add: build_fig_def build_spark_def bar_trace_def scatter_trace_def s col_def)
qed

text \<open>
  C1, as the code has it. A company and metric without a row give \<open>None\<close> from
  \<open>kpi_latest\<close> and an empty series, on any frame; a single company that is not in
  \<open>df\<close>, with a group of \<open>metric_groups\<close>, gives charts whose traces have no
  point, without an error. A group key that is not one of liquidity, profitability
  and turnover makes \<open>update_charts\<close> raise KeyError, whatever the company and the
  two bounds: there are then no series and no table. The values that the options
  of the dropdown select are exactly these three keys, the keys of \<open>metric_groups\<close>.
\<close>

theorem invalid_selection:
  "(\<forall>d c m. \<not> (\<exists>r\<in>set d. Company r = c \<and> Metric r = m) \<longrightarrow>
      kpi_latest d c m = None \<and> series_mc d m c = [] \<and> series_cm d c m = []) \<and>
   (\<forall>c g ms lo hi. map_of metric_groups g = Some ms \<and> c \<noteq> ''Both'' \<and>
        \<not> (\<exists>r\<in>set df. Company r = c) \<longrightarrow>
      (\<exists>res. update_charts c g [lo, hi] = Inr res \<and>
         traces (main_chart res) = map (\<lambda>m. Bar [] [] m [] ''auto'') ms \<and>
         traces (spark_chart res) = [Scatter [] [] ''lines+markers'' c])) \<and>
   (\<forall>c g lo hi. g \<notin> {''liquidity'', ''profitability'', ''turnover''} \<longrightarrow>
      update_charts c g [lo, hi] = Inl KeyError) \<and>
   set (map snd metric_group_options) = {''liquidity'', ''profitability'', ''turnover''} \<and>
   set (map fst metric_groups) = {''liquidity'', ''profitability'', ''turnover''}"
proof (intro conjI allI impI)
  show "set (map snd metric_group_options) = {''liquidity'', ''profitability'', ''turnover''}"
    by (simp add: metric_group_options_def)
  show "set (map fst metric_groups) = {''liquidity'', ''profitability'', ''turnover''}"
    by (simp add: metric_groups_def)
next
  fix d :: frame and c m
  assume a: "\<not> (\<exists>r\<in>set d. Company r = c \<and> Metric r = m)"
  then show "kpi_latest d c m = None" by (simp add: kpi_latest_None)
  from a show "series_mc d m c = []" by (rule series_absent)
  from a show "series_cm d c m = []" by (rule series_absent)
next
  fix c g ms lo hi
  assume "map_of metric_groups g = Some ms \<and> c \<noteq> ''Both'' \<and> \<not> (\<exists>r\<in>set df. Company r = c)"
  then show "\<exists>res. update_charts c g [lo, hi] = Inr res \<and>
         traces (main_chart res) = map (\<lambda>m. Bar [] [] m [] ''auto'') ms \<and>
         traces (spark_chart res) = [Scatter [] [] ''lines+markers'' c]"
    using unknown_company_charts by simp
next
  fix c g lo hi
  assume "g \<notin> {''liquidity'', ''profitability'', ''turnover''}"
  then show "update_charts c g [lo, hi] = Inl KeyError" by (rule update_charts_unknown_group)
qed

lemma margins_not_a_group: "''margins'' \<notin> {''liquidity'', ''profitability'', ''turnover''}"
  by simp

lemma acme_no_row: "\<not> (\<exists>r\<in>set df. Company r = ''Acme'')"
  by code_simp

lemma acme_not_both: "''Acme'' \<noteq> ''Both''"
  by simp

theorem invalid_selection_witness:
  "''margins'' \<notin> {''liquidity'', ''profitability'', ''turnover''} \<and>
   update_charts ''Dixon'' ''margins'' [2023, 2024] = Inl KeyError \<and>
   \<not> (\<exists>r\<in>set df. Company r = ''Acme'' \<and> Metric r = ''Current Ratio'') \<and>
   kpi_latest df ''Acme'' ''Current Ratio'' = None \<and>
   series_mc df ''Current Ratio'' ''Acme'' = [] \<and>
   series_cm df ''Acme'' ''Current Ratio'' = [] \<and>
   map_of metric_groups ''liquidity'' = Some [''Current Ratio'', ''Quick Ratio''] \<and>
   ''Acme'' \<noteq> ''Both'' \<and>
   \<not> (\<exists>r\<in>set df. Company r = ''Acme'') \<and>
   (\<exists>res. update_charts ''Acme'' ''liquidity'' [2021, 2025] = Inr res \<and>
      traces (main_chart res) =
        [Bar [] [] ''Current Ratio'' [] ''auto'', Bar [] [] ''Quick Ratio'' [] ''auto''] \<and>
      traces (spark_chart res) = [Scatter [] [] ''lines+markers'' ''Acme''])"
proof -
  note t = invalid_selection
  have 1: "update_charts ''Dixon'' ''margins'' [2023, 2024] = Inl KeyError"
    by (rule t [THEN conjunct2, THEN conjunct2, THEN conjunct1, rule_format,
          OF margins_not_a_group])
  note q = t [THEN conjunct1, rule_format, OF acme_absent]
  from q have 2: "kpi_latest df ''Acme'' ''Current Ratio'' = None" by (rule conjunct1)
  from q have 3: "series_mc df ''Current Ratio'' ''Acme'' = []"
    by (elim conjE)
  from q have 4: "series_cm df ''Acme'' ''Current Ratio'' = []"
    by (elim conjE)
  from t [THEN conjunct2, THEN conjunct1, rule_format,
      OF conjI [OF liquidity_metrics conjI [OF acme_not_both acme_no_row]],
      of 2021 2025]
  obtain res where a: "update_charts ''Acme'' ''liquidity'' [2021, 2025] = Inr res"
    and b: "traces (main_chart res) =
        [Bar [] [] ''Current Ratio'' [] ''auto'', Bar [] [] ''Quick Ratio'' [] ''auto'']"
    and c: "traces (spark_chart res) = [Scatter [] [] ''lines+markers'' ''Acme'']"
    by auto
  show ?thesis
    by (intro conjI exI [of _ res] margins_not_a_group 1 acme_absent 2 3 4
          liquidity_metrics acme_not_both acme_no_row a b c)
qed

text \<open>
  The key growth is not in \<open>metric_groups\<close>: with it the callback raises KeyError
  instead of returning empty series and an empty table.
\<close>

theorem unknown_group_raises:
  "''growth'' \<notin> set (map fst metric_groups) \<and>
   update_charts ''Both'' ''growth'' [2021, 2025] = Inl KeyError"
  by (simp add: update_charts_def metric_groups_def)

end
